theory Spec2Isabelle
  imports Main "HOL-Library.List_Lexorder" "HOL-Library.Multiset"
begin

section \<open>Python strings\<close>

text \<open>
  A Python \<^verbatim>\<open>str\<close> is a sequence of Unicode code points, so a string of the model is a list
  of natural numbers. Strings are compared as Python compares them: lexicographically, code
  point by code point. \<open>ascii\<close> writes a string from a literal.
\<close>

type_synonym str = "nat list"

definition ascii :: "string \<Rightarrow> str" where
  "ascii s = map of_char s"

text \<open>
  \<^verbatim>\<open>str.isspace\<close> for one character. These are all the whitespace characters of Unicode as
  Python knows them: the ASCII controls 9 to 13 and 28 to 31, the space, U+0085, U+00A0,
  U+1680, U+2000 to U+200A, U+2028, U+2029, U+202F, U+205F and U+3000.
\<close>

definition is_space :: "nat \<Rightarrow> bool" where
  "is_space c =
     ((0x09 \<le> c \<and> c \<le> 0x0D) \<or> (0x1C \<le> c \<and> c \<le> 0x20) \<or> c = 0x85 \<or> c = 0xA0
      \<or> c = 0x1680 \<or> (0x2000 \<le> c \<and> c \<le> 0x200A) \<or> c = 0x2028 \<or> c = 0x2029
      \<or> c = 0x202F \<or> c = 0x205F \<or> c = 0x3000)"

text \<open>\<^verbatim>\<open>raw.strip()\<close>: whitespace removed at both ends.\<close>

definition py_strip :: "str \<Rightarrow> str" where
  "py_strip s = rev (dropWhile is_space (rev (dropWhile is_space s)))"

text \<open>
  The other operations on characters read the Unicode character database, which is part of
  Python and not of this repository. The model takes the three tables it reads as a
  parameter:
  \<^item> \<open>upper_full c\<close> is \<^verbatim>\<open>str.upper\<close> of the one-character string \<open>c\<close>; it is a string, since
    the upper case of one character can be several (the upper case of U+00DF, the sharp s, is \<^verbatim>\<open>SS\<close>);
  \<^item> \<open>ci_match c x\<close> says that the character \<open>c\<close> of a string matches the character \<open>x\<close> of a
    pattern compiled with \<^verbatim>\<open>re.IGNORECASE\<close>;
  \<^item> \<open>is_decimal c\<close> says that \<^verbatim>\<open>\d\<close> matches \<open>c\<close>.
  Every theorem about the program below holds for every such database.
\<close>

record unicode_db =
  upper_full :: "nat \<Rightarrow> str"
  ci_match :: "nat \<Rightarrow> nat \<Rightarrow> bool"
  is_decimal :: "nat \<Rightarrow> bool"

text \<open>\<^verbatim>\<open>query.upper()\<close>: character by character.\<close>

definition py_upper :: "unicode_db \<Rightarrow> str \<Rightarrow> str" where
  "py_upper db s = concat (map (upper_full db) s)"

text \<open>
  The database restricted to ASCII, for evaluating the program at ASCII strings: it agrees
  with Python's on the code points below 128 and knows nothing of the others.
\<close>

definition ascii_fold :: "nat \<Rightarrow> nat" where
  "ascii_fold c = (if 65 \<le> c \<and> c \<le> 90 then c + 32 else c)"

definition ascii_db :: unicode_db where
  "ascii_db =
     \<lparr>upper_full = (\<lambda>c. [if 97 \<le> c \<and> c \<le> 122 then c - 32 else c]),
      ci_match = (\<lambda>c x. ascii_fold c = ascii_fold x),
      is_decimal = (\<lambda>c. 48 \<le> c \<and> c \<le> 57)\<rparr>"

text \<open>\<^verbatim>\<open>sep.join(parts)\<close>.\<close>

fun py_join :: "str \<Rightarrow> str list \<Rightarrow> str" where
  "py_join sep [] = []"
| "py_join sep [x] = x"
| "py_join sep (x # y # ys) = x @ sep @ py_join sep (y # ys)"

text \<open>\<^verbatim>\<open>d.get(k, default)\<close>.\<close>

definition dict_get :: "('k \<rightharpoonup> 'v) \<Rightarrow> 'k \<Rightarrow> 'v \<Rightarrow> 'v" where
  "dict_get d k dflt = (case d k of Some v \<Rightarrow> v | None \<Rightarrow> dflt)"


section \<open>Regular expressions, as far as \<^verbatim>\<open>_ENSEMBL_PATTERN\<close> needs them\<close>

text \<open>
  An atom consumes one character: a literal, a character range \<^verbatim>\<open>[lo-hi]\<close> or \<^verbatim>\<open>\d\<close>.
  Under \<^verbatim>\<open>re.IGNORECASE\<close> a literal matches the characters the database says, and a range
  matches a character that matches one of the characters of the range.
\<close>

datatype atom = Lit nat | Range nat nat | Digit

datatype regex = Zero | One | Atom atom | Alt regex regex | Seq regex regex | Star regex

definition Plus :: "regex \<Rightarrow> regex" where
  "Plus r = Seq r (Star r)"

fun atom_ok :: "unicode_db \<Rightarrow> bool \<Rightarrow> atom \<Rightarrow> nat \<Rightarrow> bool" where
  "atom_ok db ic (Lit x) c = (if ic then ci_match db c x else c = x)"
| "atom_ok db ic (Range lo hi) c =
     (if ic then list_ex (ci_match db c) [lo..<Suc hi] else lo \<le> c \<and> c \<le> hi)"
| "atom_ok db ic Digit c = is_decimal db c"

fun nullable :: "regex \<Rightarrow> bool" where
  "nullable Zero = False"
| "nullable One = True"
| "nullable (Atom a) = False"
| "nullable (Alt r s) = (nullable r \<or> nullable s)"
| "nullable (Seq r s) = (nullable r \<and> nullable s)"
| "nullable (Star r) = True"

fun deriv :: "unicode_db \<Rightarrow> bool \<Rightarrow> nat \<Rightarrow> regex \<Rightarrow> regex" where
  "deriv db ic c Zero = Zero"
| "deriv db ic c One = Zero"
| "deriv db ic c (Atom a) = (if atom_ok db ic a c then One else Zero)"
| "deriv db ic c (Alt r s) = Alt (deriv db ic c r) (deriv db ic c s)"
| "deriv db ic c (Seq r s) =
     (if nullable r then Alt (Seq (deriv db ic c r) s) (deriv db ic c s)
      else Seq (deriv db ic c r) s)"
| "deriv db ic c (Star r) = Seq (deriv db ic c r) (Star r)"

text \<open>The whole string is in the language of the expression.\<close>

definition full_match :: "unicode_db \<Rightarrow> bool \<Rightarrow> regex \<Rightarrow> str \<Rightarrow> bool" where
  "full_match db ic r s = nullable (fold (deriv db ic) s r)"

text \<open>
  \<^verbatim>\<open>re.compile("^" + body + "$", flags).match(s)\<close> without \<^verbatim>\<open>re.MULTILINE\<close>: \<^verbatim>\<open>^\<close> is
  the start of the string, and \<^verbatim>\<open>$\<close> is its end or the position just before a newline that
  ends it.
\<close>

definition anchored_match :: "unicode_db \<Rightarrow> bool \<Rightarrow> regex \<Rightarrow> str \<Rightarrow> bool" where
  "anchored_match db ic body s =
     (full_match db ic body s
      \<or> (s \<noteq> [] \<and> last s = 0x0A \<and> full_match db ic body (butlast s)))"

fun lits :: "str \<Rightarrow> regex" where
  "lits [] = One"
| "lits [c] = Atom (Lit c)"
| "lits (c # cs) = Seq (Atom (Lit c)) (lits cs)"

text \<open>\<^verbatim>\<open>_ENSEMBL_PATTERN = re.compile(r"^ENS[A-Z]*G\d+$", re.IGNORECASE)\<close>\<close>

definition ENSEMBL_body :: regex where
  "ENSEMBL_body =
     Seq (lits (ascii ''ENS''))
       (Seq (Star (Atom (Range (of_char (CHR ''A'')) (of_char (CHR ''Z'')))))
         (Seq (Atom (Lit (of_char (CHR ''G'')))) (Plus (Atom Digit))))"

definition ENSEMBL_PATTERN_match :: "unicode_db \<Rightarrow> str \<Rightarrow> bool" where
  "ENSEMBL_PATTERN_match db s = anchored_match db True ENSEMBL_body s"


text \<open>
  A database agrees with Unicode on ASCII when it gives the ASCII characters the upper case,
  the decimal digits and the case-insensitive matches among themselves that the ASCII
  database gives them, as Python's database does. An expression is an ASCII expression when
  its literals and ranges are ASCII characters.
\<close>

definition agrees_on_ascii :: "unicode_db \<Rightarrow> bool" where
  "agrees_on_ascii db =
     (\<forall>c < 128. upper_full db c = upper_full ascii_db c
        \<and> is_decimal db c = is_decimal ascii_db c
        \<and> (\<forall>x < 128. ci_match db c x = ci_match ascii_db c x))"




section \<open>Data classes\<close>

text \<open>\<^verbatim>\<open>GeneMatch\<close>: the result of resolving one query; \<^verbatim>\<open>GeneDict\<close>: the three dictionaries.\<close>

record GeneMatch =
  query :: str
  ensembl_ids :: "str list"
  canonical_name :: "str option"
  is_ambiguous :: bool
  feature_types :: "str list"

record GeneDict =
  name_to_ids :: "str \<rightharpoonup> str list"
  id_to_name :: "str \<rightharpoonup> str"
  id_to_feature_type :: "str \<rightharpoonup> str"

text \<open>\<^verbatim>\<open>GeneMatch(query=query)\<close>: every other field at its default.\<close>

definition GeneMatch_default :: "str \<Rightarrow> GeneMatch" where
  "GeneMatch_default q =
     \<lparr>query = q, ensembl_ids = [], canonical_name = None, is_ambiguous = False,
      feature_types = []\<rparr>"

text \<open>\<^verbatim>\<open>GeneDict()\<close>: three empty dictionaries.\<close>

definition GeneDict_empty :: GeneDict where
  "GeneDict_empty = \<lparr>name_to_ids = Map.empty, id_to_name = Map.empty,
     id_to_feature_type = Map.empty\<rparr>"


section \<open>\<^verbatim>\<open>resolve_genes\<close>\<close>

text \<open>
  The body of the loop of \<^verbatim>\<open>resolve_genes\<close> appends one \<^verbatim>\<open>GeneMatch\<close> on each of its paths.
  The first block, taken when the pattern matches the stripped token
  (\<^verbatim>\<open># --- Ensembl ID passthrough ---\<close>):
\<close>

definition ensembl_passthrough :: "unicode_db \<Rightarrow> GeneDict \<Rightarrow> str \<Rightarrow> GeneMatch" where
  "ensembl_passthrough db gd q =
     (let ens_upper = py_upper db q;
          name = id_to_name gd ens_upper;
          ftype = id_to_feature_type gd ens_upper
      in case name of
           Some n \<Rightarrow>
             \<lparr>query = q, ensembl_ids = [ens_upper], canonical_name = Some n,
              is_ambiguous = False,
              feature_types = (case ftype of None \<Rightarrow> [] | Some t \<Rightarrow> if t \<noteq> [] then [t] else [])\<rparr>
         | None \<Rightarrow>
             \<lparr>query = q, ensembl_ids = [ens_upper], canonical_name = None,
              is_ambiguous = False, feature_types = []\<rparr>)"

text \<open>The rest of the body (\<^verbatim>\<open># --- Name-based lookup ---\<close>).\<close>

definition name_lookup :: "unicode_db \<Rightarrow> GeneDict \<Rightarrow> bool \<Rightarrow> str \<Rightarrow> GeneMatch" where
  "name_lookup db gd prefer_protein_coding q =
     (let norm = py_upper db q in
      case name_to_ids gd norm of
        None \<Rightarrow> GeneMatch_default q
      | Some ids \<Rightarrow>
          if ids = [] then GeneMatch_default q
          else
            let ftypes = map (\<lambda>i. dict_get (id_to_feature_type gd) i []) ids in
            if length ids = 1 then
              \<lparr>query = q, ensembl_ids = ids,
               canonical_name = Some (dict_get (id_to_name gd) (ids ! 0) q),
               is_ambiguous = False, feature_types = ftypes\<rparr>
            else
              let pc_ids = map fst (filter (\<lambda>(i, ft). ft = ascii ''protein_coding'')
                             (zip ids ftypes)) in
              if prefer_protein_coding \<and> length pc_ids = 1 then
                \<lparr>query = q, ensembl_ids = pc_ids,
                 canonical_name = Some (dict_get (id_to_name gd) (pc_ids ! 0) q),
                 is_ambiguous = False, feature_types = [ascii ''protein_coding'']\<rparr>
              else
                \<lparr>query = q, ensembl_ids = ids,
                 canonical_name = Some (dict_get (id_to_name gd) (ids ! 0) q),
                 is_ambiguous = True, feature_types = ftypes\<rparr>)"

definition resolve_one :: "unicode_db \<Rightarrow> GeneDict \<Rightarrow> bool \<Rightarrow> str \<Rightarrow> GeneMatch" where
  "resolve_one db gd prefer_protein_coding raw =
     (let q = py_strip raw in
      if ENSEMBL_PATTERN_match db q then ensembl_passthrough db gd q
      else name_lookup db gd prefer_protein_coding q)"

text \<open>The loop: \<^verbatim>\<open>results\<close> grows by one entry for each element of \<^verbatim>\<open>gene_names\<close>.\<close>

fun resolve_loop ::
  "unicode_db \<Rightarrow> GeneDict \<Rightarrow> bool \<Rightarrow> GeneMatch list \<Rightarrow> str list \<Rightarrow> GeneMatch list" where
  "resolve_loop db gd prefer_protein_coding results [] = results"
| "resolve_loop db gd prefer_protein_coding results (raw # gene_names) =
     resolve_loop db gd prefer_protein_coding
       (results @ [resolve_one db gd prefer_protein_coding raw]) gene_names"

text \<open>
  \<^verbatim>\<open>resolve_genes\<close>, with the dictionary that \<^verbatim>\<open>_get_gene_dict(census_version, organism)\<close>
  returned as an argument.
\<close>

definition resolve_genes ::
  "unicode_db \<Rightarrow> GeneDict \<Rightarrow> str list \<Rightarrow> bool \<Rightarrow> GeneMatch list" where
  "resolve_genes db gd gene_names prefer_protein_coding =
     resolve_loop db gd prefer_protein_coding [] gene_names"


section \<open>\<^verbatim>\<open>build_var_value_filter\<close>\<close>

definition build_var_value_filter :: "str list \<Rightarrow> str" where
  "build_var_value_filter ensembl_ids' =
     (let unique = sorted_list_of_set (set ensembl_ids') in
      if unique = [] then []
      else
        let quoted = py_join (ascii '', '') (map (\<lambda>eid. [0x27] @ eid @ [0x27]) unique)
        in ascii ''feature_id in ['' @ quoted @ ascii '']'')"

section \<open>The dictionaries of the test suite\<close>

text \<open>The fixture \<^verbatim>\<open>sample_gene_dict\<close> of \<^verbatim>\<open>tests/test_gene_resolver.py\<close>.\<close>

definition sample_gene_dict :: GeneDict where
  "sample_gene_dict =
     \<lparr>name_to_ids =
        [ascii ''TP53'' \<mapsto> [ascii ''ENSG00000141510''],
         ascii ''BRCA1'' \<mapsto> [ascii ''ENSG00000012048''],
         ascii ''AMBIG'' \<mapsto> [ascii ''ENSG00000000001'', ascii ''ENSG00000000002''],
         ascii ''DUALPC'' \<mapsto> [ascii ''ENSG00000000003'', ascii ''ENSG00000000004'']],
      id_to_name =
        [ascii ''ENSG00000141510'' \<mapsto> ascii ''TP53'',
         ascii ''ENSG00000012048'' \<mapsto> ascii ''BRCA1'',
         ascii ''ENSG00000000001'' \<mapsto> ascii ''AMBIG'',
         ascii ''ENSG00000000002'' \<mapsto> ascii ''AMBIG'',
         ascii ''ENSG00000000003'' \<mapsto> ascii ''DUALPC'',
         ascii ''ENSG00000000004'' \<mapsto> ascii ''DUALPC''],
      id_to_feature_type =
        [ascii ''ENSG00000141510'' \<mapsto> ascii ''protein_coding'',
         ascii ''ENSG00000012048'' \<mapsto> ascii ''protein_coding'',
         ascii ''ENSG00000000001'' \<mapsto> ascii ''protein_coding'',
         ascii ''ENSG00000000002'' \<mapsto> ascii ''lncRNA'',
         ascii ''ENSG00000000003'' \<mapsto> ascii ''protein_coding'',
         ascii ''ENSG00000000004'' \<mapsto> ascii ''protein_coding'']\<rparr>"

text \<open>
  A dictionary in which one name has an empty list of identifiers and one identifier has
  the empty string as its feature type.
\<close>

definition sparse_gene_dict :: GeneDict where
  "sparse_gene_dict =
     \<lparr>name_to_ids = [ascii ''GHOST'' \<mapsto> []],
      id_to_name = [ascii ''ENSG00000000009'' \<mapsto> ascii ''BLANK''],
      id_to_feature_type = [ascii ''ENSG00000000009'' \<mapsto> []]\<rparr>"


section \<open>\<^verbatim>\<open>_get_gene_dict\<close>\<close>

text \<open>
  \<^verbatim>\<open>_get_gene_dict\<close> reads the file system and the census. The model takes the outcome of each
  of these calls as an input and returns the log records written and either the exception
  that leaves the function or the dictionary returned. The exception classes are those the
  Python documentation names for unpickling, and \<^verbatim>\<open>OSError\<close> for the file system; all are
  subclasses of \<^verbatim>\<open>Exception\<close>, and none but the first two is a subclass of
  \<^verbatim>\<open>pickle.UnpicklingError\<close> or \<^verbatim>\<open>EOFError\<close>. The \<^verbatim>\<open>lru_cache\<close> around the function is left
  out: it stores what the function returns.
\<close>

datatype py_exc = UnpicklingError | EOFError | AttributeError | ImportError | IndexError | OSError

datatype log_record =
    Info_loading_cached
  | Warning_cache_corrupted py_exc
  | Info_fetching
  | Warning_organism_not_found
  | Info_saved
  | Error_fetching py_exc

text \<open>A row of the var table: \<^verbatim>\<open>feature_id\<close>, \<^verbatim>\<open>feature_name\<close>, \<^verbatim>\<open>feature_type\<close>.\<close>

type_synonym var_row = "str \<times> str \<times> str"

record io_outcome =
  makedirs :: "py_exc option"
  cache_exists :: bool
  cache_open :: "py_exc option"
  cache_load :: "py_exc + GeneDict"
  census_read :: "py_exc + var_row list option"
  cache_write :: "py_exc option"

text \<open>The body of \<^verbatim>\<open>for _, row in var_df.iterrows()\<close>.\<close>

definition add_row :: "unicode_db \<Rightarrow> var_row \<Rightarrow> GeneDict \<Rightarrow> GeneDict" where
  "add_row db row gd =
     (case row of (ens_id, name, ftype) \<Rightarrow>
        let norm = py_upper db name in
        \<lparr>name_to_ids = (name_to_ids gd)(norm \<mapsto> dict_get (name_to_ids gd) norm [] @ [ens_id]),
         id_to_name = (id_to_name gd)(ens_id \<mapsto> name),
         id_to_feature_type = (id_to_feature_type gd)(ens_id \<mapsto> ftype)\<rparr>)"

text \<open>\<^verbatim>\<open>except (pickle.UnpicklingError, EOFError) as exc\<close>\<close>

definition cache_handler_catches :: "py_exc \<Rightarrow> bool" where
  "cache_handler_catches e = (e = UnpicklingError \<or> e = EOFError)"

text \<open>From \<^verbatim>\<open># --- Fetch from census ---\<close> to the end of the function.\<close>

definition fetch_from_census ::
  "unicode_db \<Rightarrow> io_outcome \<Rightarrow> log_record list \<times> (py_exc + GeneDict)" where
  "fetch_from_census db io =
     (case census_read io of
        Inl e \<Rightarrow> ([Info_fetching, Error_fetching e], Inr GeneDict_empty)
      | Inr None \<Rightarrow> ([Info_fetching, Warning_organism_not_found], Inr GeneDict_empty)
      | Inr (Some rows) \<Rightarrow>
          let gd = fold (add_row db) rows GeneDict_empty in
          (case cache_write io of
             Some e \<Rightarrow> ([Info_fetching, Error_fetching e], Inr gd)
           | None \<Rightarrow> ([Info_fetching, Info_saved], Inr gd)))"

definition get_gene_dict ::
  "unicode_db \<Rightarrow> io_outcome \<Rightarrow> log_record list \<times> (py_exc + GeneDict)" where
  "get_gene_dict db io =
     (case makedirs io of
        Some e \<Rightarrow> ([], Inl e)
      | None \<Rightarrow>
          if cache_exists io then
            (case cache_open io of
               Some e \<Rightarrow>
                 if cache_handler_catches e then
                   (case fetch_from_census db io of
                      (log, res) \<Rightarrow> (Warning_cache_corrupted e # log, res))
                 else ([], Inl e)
             | None \<Rightarrow>
                 (case cache_load io of
                    Inr gd \<Rightarrow> ([Info_loading_cached], Inr gd)
                  | Inl e \<Rightarrow>
                      if cache_handler_catches e then
                        (case fetch_from_census db io of
                           (log, res) \<Rightarrow>
                             (Info_loading_cached # Warning_cache_corrupted e # log, res))
                      else ([Info_loading_cached], Inl e)))
          else fetch_from_census db io)"

text \<open>
  An outcome in which the cache file exists, opening it succeeds and unpickling it raises
  \<open>e\<close>, while the census and the file system work.
\<close>

definition corrupt_cache_io :: "py_exc \<Rightarrow> io_outcome" where
  "corrupt_cache_io e =
     \<lparr>makedirs = None, cache_exists = True, cache_open = None, cache_load = Inl e,
      census_read =
        Inr (Some [(ascii ''ENSG00000141510'', ascii ''TP53'', ascii ''protein_coding'')]),
      cache_write = None\<rparr>"


section \<open>The semantics of regular expressions\<close>

text \<open>
  The language of an expression, as a relation between expressions and strings. The
  matcher \<open>full_match\<close> is shown below to decide it.
\<close>

inductive in_lang :: "unicode_db \<Rightarrow> bool \<Rightarrow> regex \<Rightarrow> str \<Rightarrow> bool"
  for db :: unicode_db and ic :: bool where
  in_One: "in_lang db ic One []"
| in_Atom: "atom_ok db ic a c \<Longrightarrow> in_lang db ic (Atom a) [c]"
| in_AltL: "in_lang db ic r w \<Longrightarrow> in_lang db ic (Alt r s) w"
| in_AltR: "in_lang db ic s w \<Longrightarrow> in_lang db ic (Alt r s) w"
| in_Seq: "in_lang db ic r u \<Longrightarrow> in_lang db ic s v \<Longrightarrow> in_lang db ic (Seq r s) (u @ v)"
| in_StarNil: "in_lang db ic (Star r) []"
| in_StarStep:
    "in_lang db ic r u \<Longrightarrow> in_lang db ic (Star r) v \<Longrightarrow> in_lang db ic (Star r) (u @ v)"



section \<open>The shape of a stable identifier, in the words of the specification\<close>





section \<open>The filter expression, in the words of the specification\<close>

text \<open>
  Section 4.4 of the specification: the identifiers, each in single quotes, with a comma and
  one space between two of them and nothing after the last.
\<close>

fun quoted_ids :: "str list \<Rightarrow> str" where
  "quoted_ids [] = []"
| "quoted_ids [x] = 0x27 # x @ [0x27]"
| "quoted_ids (x # y # ys) = 0x27 # x @ [0x27] @ ascii '', '' @ quoted_ids (y # ys)"


section \<open>Properties of \<^verbatim>\<open>resolve_genes\<close>\<close>

subsection \<open>The loop and the stripping\<close>

lemmas strip_eval = py_strip_def is_space_def ascii_def

lemma resolve_loop_append:
  "resolve_loop db gd p acc qs = acc @ map (resolve_one db gd p) qs"
  by (induction qs arbitrary: acc) simp_all

lemma resolve_genes_map: "resolve_genes db gd qs p = map (resolve_one db gd p) qs"
  by (simp add: resolve_genes_def resolve_loop_append)

lemma resolve_genes_nth:
  "i < length qs \<Longrightarrow> resolve_genes db gd qs p ! i = resolve_one db gd p (qs ! i)"
  by (simp add: resolve_genes_map)

lemma strip_right_Cons:
  "rev (dropWhile P (rev (x # xs))) =
     (if rev (dropWhile P (rev xs)) = [] \<and> P x then [] else x # rev (dropWhile P (rev xs)))"
  using dropWhile_append3 by fastforce

lemma strip_right_hd:
  "rev (dropWhile P (rev xs)) \<noteq> [] \<Longrightarrow> hd (rev (dropWhile P (rev xs))) = hd xs"
  by (cases xs) (simp_all only: strip_right_Cons list.sel split: if_splits, simp_all)


lemma py_strip_no_leading: "dropWhile is_space (py_strip s) = py_strip s"
  by (metis dropWhile_eq_self_iff hd_dropWhile py_strip_def rev.simps(1) strip_right_hd)

lemma py_strip_idem: "py_strip (py_strip s) = py_strip s"
proof -
  have "rev (py_strip s) = dropWhile is_space (rev (dropWhile is_space s))"
    by (simp add: py_strip_def)
  then have "dropWhile is_space (rev (py_strip s)) = rev (py_strip s)"
    by (simp add: dropWhile_idem)
  then have "rev (dropWhile is_space (rev (py_strip s))) = py_strip s"
    by simp
  then show ?thesis
    unfolding py_strip_def [of "py_strip s"] py_strip_no_leading .
qed

lemma passthrough_ids: "ensembl_ids (ensembl_passthrough db gd q) = [py_upper db q]"
  by (simp add: ensembl_passthrough_def Let_def split: option.split)

lemma passthrough_not_ambiguous: "\<not> is_ambiguous (ensembl_passthrough db gd q)"
  by (simp add: ensembl_passthrough_def Let_def split: option.split)

lemma passthrough_query: "query (ensembl_passthrough db gd q) = q"
  by (simp add: ensembl_passthrough_def Let_def split: option.split)

lemma name_lookup_query: "query (name_lookup db gd p q) = q"
  by (simp add: name_lookup_def GeneMatch_default_def Let_def split: option.split)

lemma resolve_one_query: "query (resolve_one db gd p raw) = py_strip raw"
  by (simp add: resolve_one_def Let_def passthrough_query name_lookup_query)

lemma resolve_one_strip: "resolve_one db gd p (py_strip raw) = resolve_one db gd p raw"
  by (simp add: resolve_one_def py_strip_idem)

lemma pc_ids_filter:
  "map fst (filter (\<lambda>(i, ft). ft = t) (zip ids (map f ids))) = filter (\<lambda>i. f i = t) ids"
  by (induction ids) simp_all

lemma name_lookup_ambiguity:
  "(is_ambiguous (name_lookup db gd p q) \<longrightarrow> 1 < length (ensembl_ids (name_lookup db gd p q))) \<and>
   (\<not> is_ambiguous (name_lookup db gd p q) \<longrightarrow> length (ensembl_ids (name_lookup db gd p q)) \<le> 1)"
  by (cases "name_to_ids gd (py_upper db q)")
     (auto simp add: name_lookup_def GeneMatch_default_def Let_def Suc_lessI)


subsection \<open>Stable identifiers are passed through\<close>

text \<open>
  Claim C3. A token whose stripped form matches \<^verbatim>\<open>_ENSEMBL_PATTERN\<close> resolves to exactly one
  identifier, the stripped token in upper case, and is never ambiguous. Its canonical name
  is the entry of \<^verbatim>\<open>id_to_name\<close> when the identifier is a key there; when it is not, the
  canonical name is \<^verbatim>\<open>None\<close> and the feature types are empty. The model has no error value
  on this path: every token yields a \<^verbatim>\<open>GeneMatch\<close>.
\<close>

theorem stable_id_passthrough:
  assumes "i < length gene_names"
    and "ENSEMBL_PATTERN_match db (py_strip (gene_names ! i))"
  shows "ensembl_ids (resolve_genes db gd gene_names prefer_protein_coding ! i)
           = [py_upper db (py_strip (gene_names ! i))]
       \<and> ensembl_ids (resolve_genes db gd gene_names prefer_protein_coding ! i) \<noteq> []
       \<and> \<not> is_ambiguous (resolve_genes db gd gene_names prefer_protein_coding ! i)
       \<and> (case id_to_name gd (py_upper db (py_strip (gene_names ! i))) of
            Some n \<Rightarrow>
              canonical_name (resolve_genes db gd gene_names prefer_protein_coding ! i) = Some n
          | None \<Rightarrow>
              canonical_name (resolve_genes db gd gene_names prefer_protein_coding ! i) = None
            \<and> feature_types (resolve_genes db gd gene_names prefer_protein_coding ! i) = [])"
proof -
  have m: "resolve_genes db gd gene_names prefer_protein_coding ! i
             = ensembl_passthrough db gd (py_strip (gene_names ! i))"
    using assms by (simp add: resolve_genes_nth resolve_one_def)
  show ?thesis
    unfolding m
    by (simp add: ensembl_passthrough_def Let_def split: option.split)
qed

theorem stable_id_passthrough_witness:
  "ENSEMBL_PATTERN_match ascii_db (py_strip (ascii '' ensg99999999999 ''))
   \<and> ensembl_ids (resolve_genes ascii_db sample_gene_dict
         [ascii ''ENSG00000141510'', ascii '' ensg99999999999 ''] True ! 1)
       = [ascii ''ENSG99999999999'']
   \<and> canonical_name (resolve_genes ascii_db sample_gene_dict
         [ascii ''ENSG00000141510'', ascii '' ensg99999999999 ''] True ! 1)
       = None
   \<and> feature_types (resolve_genes ascii_db sample_gene_dict
         [ascii ''ENSG00000141510'', ascii '' ensg99999999999 ''] True ! 1)
       = []
   \<and> ENSEMBL_PATTERN_match ascii_db (py_strip (ascii ''ENSG00000141510''))
   \<and> ensembl_ids (resolve_genes ascii_db sample_gene_dict
         [ascii ''ENSG00000141510'', ascii '' ensg99999999999 ''] True ! 0)
       = [ascii ''ENSG00000141510'']
   \<and> canonical_name (resolve_genes ascii_db sample_gene_dict
         [ascii ''ENSG00000141510'', ascii '' ensg99999999999 ''] True ! 0)
       = Some (ascii ''TP53'')"
proof -
  have s1: "py_strip (ascii '' ensg99999999999 '') = ascii ''ensg99999999999''"
    and s0: "py_strip (ascii ''ENSG00000141510'') = ascii ''ENSG00000141510''"
    by (simp_all add: strip_eval)
  have m1: "ENSEMBL_PATTERN_match ascii_db (ascii ''ensg99999999999'')"
    and m0: "ENSEMBL_PATTERN_match ascii_db (ascii ''ENSG00000141510'')"
    by code_simp+
  have u1: "py_upper ascii_db (ascii ''ensg99999999999'') = ascii ''ENSG99999999999''"
    and u0: "py_upper ascii_db (ascii ''ENSG00000141510'') = ascii ''ENSG00000141510''"
    by code_simp+
  have n1: "id_to_name sample_gene_dict (ascii ''ENSG99999999999'') = None"
    and n0: "id_to_name sample_gene_dict (ascii ''ENSG00000141510'') = Some (ascii ''TP53'')"
    by code_simp+
  show ?thesis
    using stable_id_passthrough
        [where db = ascii_db and gd = sample_gene_dict and i = 1
           and gene_names = "[ascii ''ENSG00000141510'', ascii '' ensg99999999999 '']"
           and prefer_protein_coding = True]
      stable_id_passthrough
        [where db = ascii_db and gd = sample_gene_dict and i = 0
           and gene_names = "[ascii ''ENSG00000141510'', ascii '' ensg99999999999 '']"
           and prefer_protein_coding = True]
    by (simp add: s1 m1 u1 n1 s0 m0 u0 n0)
qed


subsection \<open>The ambiguity invariant\<close>

text \<open>
  Claim C4. For every list of tokens, every dictionary and either value of
  \<^verbatim>\<open>prefer_protein_coding\<close>, each \<^verbatim>\<open>GeneMatch\<close> of the result has more than one identifier
  when it is ambiguous, and at most one when it is not.
\<close>

theorem ambiguity_invariant:
  "\<forall>m \<in> set (resolve_genes db gd gene_names prefer_protein_coding).
     (is_ambiguous m \<longrightarrow> 1 < length (ensembl_ids m)) \<and>
     (\<not> is_ambiguous m \<longrightarrow> length (ensembl_ids m) \<le> 1)"
proof
  fix m
  assume "m \<in> set (resolve_genes db gd gene_names prefer_protein_coding)"
  then obtain raw where m: "m = resolve_one db gd prefer_protein_coding raw"
    by (auto simp add: resolve_genes_map)
  show "(is_ambiguous m \<longrightarrow> 1 < length (ensembl_ids m)) \<and>
        (\<not> is_ambiguous m \<longrightarrow> length (ensembl_ids m) \<le> 1)"
  proof (cases "ENSEMBL_PATTERN_match db (py_strip raw)")
    case True
    then have "m = ensembl_passthrough db gd (py_strip raw)"
      by (simp add: m resolve_one_def)
    then show ?thesis
      by (simp add: passthrough_ids passthrough_not_ambiguous)
  next
    case False
    then have "m = name_lookup db gd prefer_protein_coding (py_strip raw)"
      by (simp add: m resolve_one_def)
    then show ?thesis
      using name_lookup_ambiguity by simp
  qed
qed

theorem ambiguity_invariant_witness:
  "is_ambiguous (resolve_genes ascii_db sample_gene_dict [ascii ''TP53'', ascii ''DUALPC''] True ! 1)
   \<and> 1 < length (ensembl_ids
         (resolve_genes ascii_db sample_gene_dict [ascii ''TP53'', ascii ''DUALPC''] True ! 1))
   \<and> \<not> is_ambiguous
         (resolve_genes ascii_db sample_gene_dict [ascii ''TP53'', ascii ''DUALPC''] True ! 0)
   \<and> length (ensembl_ids
         (resolve_genes ascii_db sample_gene_dict [ascii ''TP53'', ascii ''DUALPC''] True ! 0)) \<le> 1"
proof -
  let ?rs = "resolve_genes ascii_db sample_gene_dict [ascii ''TP53'', ascii ''DUALPC''] True"
  have s: "py_strip (ascii ''TP53'') = ascii ''TP53''"
    "py_strip (ascii ''DUALPC'') = ascii ''DUALPC''"
    by (simp_all add: strip_eval)
  have p: "\<not> ENSEMBL_PATTERN_match ascii_db (ascii ''TP53'')"
    "\<not> ENSEMBL_PATTERN_match ascii_db (ascii ''DUALPC'')"
    by code_simp+
  have a: "is_ambiguous (name_lookup ascii_db sample_gene_dict True (ascii ''DUALPC''))"
    "\<not> is_ambiguous (name_lookup ascii_db sample_gene_dict True (ascii ''TP53''))"
    by code_simp+
  have a1: "is_ambiguous (?rs ! 1)" and a0: "\<not> is_ambiguous (?rs ! 0)"
    by (simp_all add: resolve_genes_map resolve_one_def s p a)
  have "length ?rs = 2"
    by (simp add: resolve_genes_map)
  then have "?rs ! 1 \<in> set ?rs" and "?rs ! 0 \<in> set ?rs"
    by simp_all
  with ambiguity_invariant
        [where db = ascii_db and gd = sample_gene_dict
           and gene_names = "[ascii ''TP53'', ascii ''DUALPC'']"
           and prefer_protein_coding = True] a1 a0
  show ?thesis by blast
qed


subsection \<open>One result per token, in order, on the stripped token\<close>

text \<open>
  Claim C5. The result has as many entries as there are tokens; its \<open>i\<close>-th entry is what
  resolving the \<open>i\<close>-th token alone gives; the \<^verbatim>\<open>query\<close> field of that entry is the token with
  the whitespace at both ends removed; and resolving the stripped token gives the same as
  resolving the token, so the pattern test and the dictionary lookup see the stripped
  token only. This holds for every string of code points, whatever the whitespace.
\<close>

theorem resolve_genes_length_order_strip:
  assumes "i < length gene_names"
  shows "length (resolve_genes db gd gene_names prefer_protein_coding) = length gene_names
       \<and> resolve_genes db gd gene_names prefer_protein_coding ! i
           = hd (resolve_genes db gd [gene_names ! i] prefer_protein_coding)
       \<and> query (resolve_genes db gd gene_names prefer_protein_coding ! i)
           = py_strip (gene_names ! i)
       \<and> resolve_genes db gd [py_strip (gene_names ! i)] prefer_protein_coding
           = resolve_genes db gd [gene_names ! i] prefer_protein_coding"
  using assms
  by (simp add: resolve_genes_map resolve_one_query resolve_one_strip)

theorem resolve_genes_length_order_strip_witness:
  "length (resolve_genes ascii_db sample_gene_dict
      [ascii ''BRCA1'', [0xA0] @ ascii '' TP53 '' @ [0x85, 0x3000]] True) = 2
   \<and> query (resolve_genes ascii_db sample_gene_dict
      [ascii ''BRCA1'', [0xA0] @ ascii '' TP53 '' @ [0x85, 0x3000]] True ! 1) = ascii ''TP53''
   \<and> resolve_genes ascii_db sample_gene_dict [ascii ''TP53''] True
       = resolve_genes ascii_db sample_gene_dict [[0xA0] @ ascii '' TP53 '' @ [0x85, 0x3000]] True"
proof -
  let ?raw = "[0xA0] @ ascii '' TP53 '' @ [0x85, 0x3000]"
  have s: "py_strip ([ascii ''BRCA1'', ?raw] ! 1) = ascii ''TP53''"
    by (simp add: strip_eval)
  have n: "[ascii ''BRCA1'', ?raw] ! 1 = ?raw" by simp
  have l: "(1::nat) < length [ascii ''BRCA1'', ?raw]" by simp
  note t = resolve_genes_length_order_strip
    [OF l, where db = ascii_db and gd = sample_gene_dict and prefer_protein_coding = True,
     unfolded s]
  have t4: "resolve_genes ascii_db sample_gene_dict [ascii ''TP53''] True
       = resolve_genes ascii_db sample_gene_dict [[ascii ''BRCA1'', ?raw] ! 1] True"
    using t by blast
  have t1: "length (resolve_genes ascii_db sample_gene_dict [ascii ''BRCA1'', ?raw] True) =
     length [ascii ''BRCA1'', ?raw]"
    using t by blast
  have t3: "query (resolve_genes ascii_db sample_gene_dict [ascii ''BRCA1'', ?raw] True ! 1)
     = ascii ''TP53''"
    using t by blast
  show ?thesis
    using t1 t3 t4 [unfolded n] by simp
qed


subsection \<open>Several candidates for one symbol\<close>

text \<open>
  Claim C1. Let the stripped token not match the pattern and let \<^verbatim>\<open>name_to_ids\<close> map its
  upper-case form to a list \<open>ids\<close> of two or more identifiers. If \<^verbatim>\<open>prefer_protein_coding\<close> is
  set and exactly one position of \<open>ids\<close> has the feature type \<^verbatim>\<open>protein_coding\<close> (exactly), the
  result holds that identifier only, its canonical name, is not ambiguous and has the
  feature types \<^verbatim>\<open>["protein_coding"]\<close>. In every other case (the flag not set, no such
  position, two or more such positions) the result holds all of \<open>ids\<close> in their order, the
  canonical name of the first, is ambiguous and has the feature types of all of \<open>ids\<close> in
  the same order. The canonical name of an identifier is its entry in \<^verbatim>\<open>id_to_name\<close>; the
  source reads it with \<^verbatim>\<open>id_to_name.get(id, query)\<close> and a feature type with
  \<^verbatim>\<open>id_to_feature_type.get(id, "")\<close>, which is what \<open>dict_get\<close> writes out.
\<close>

theorem protein_coding_disambiguation:
  assumes "i < length gene_names"
    and "\<not> ENSEMBL_PATTERN_match db (py_strip (gene_names ! i))"
    and "name_to_ids gd (py_upper db (py_strip (gene_names ! i))) = Some ids"
    and "2 \<le> length ids"
  shows "resolve_genes db gd gene_names prefer_protein_coding ! i =
     (let q = py_strip (gene_names ! i);
          pcs = filter (\<lambda>e. id_to_feature_type gd e = Some (ascii ''protein_coding'')) ids
      in if prefer_protein_coding \<and> length pcs = 1 then
           \<lparr>query = q, ensembl_ids = [hd pcs],
            canonical_name = Some (dict_get (id_to_name gd) (hd pcs) q),
            is_ambiguous = False, feature_types = [ascii ''protein_coding'']\<rparr>
         else
           \<lparr>query = q, ensembl_ids = ids,
            canonical_name = Some (dict_get (id_to_name gd) (hd ids) q),
            is_ambiguous = True,
            feature_types = map (\<lambda>e. dict_get (id_to_feature_type gd) e []) ids\<rparr>)"
proof -
  let ?q = "py_strip (gene_names ! i)"
  let ?pcs = "filter (\<lambda>e. id_to_feature_type gd e = Some (ascii ''protein_coding'')) ids"
  have nonempty: "ascii ''protein_coding'' \<noteq> []"
    by (simp add: ascii_def)
  have pc: "map fst (filter (\<lambda>(i, ft). ft = ascii ''protein_coding'')
              (zip ids (map (\<lambda>i. dict_get (id_to_feature_type gd) i []) ids))) = ?pcs"
  proof -
    have "(\<lambda>e. dict_get (id_to_feature_type gd) e [] = ascii ''protein_coding'')
           = (\<lambda>e. id_to_feature_type gd e = Some (ascii ''protein_coding''))"
      using nonempty by (auto simp add: dict_get_def fun_eq_iff split: option.split)
    then show ?thesis
      by (simp add: pc_ids_filter)
  qed
  have ne: "ids \<noteq> []" and n1: "length ids \<noteq> 1"
    using assms(4) by auto
  have one: "length ?pcs = 1 \<Longrightarrow> ?pcs = [hd ?pcs] \<and> ?pcs ! 0 = hd ?pcs"
    by (cases ?pcs) simp_all
  have m: "resolve_genes db gd gene_names prefer_protein_coding ! i
             = name_lookup db gd prefer_protein_coding ?q"
    using assms(1,2) by (simp add: resolve_genes_nth resolve_one_def)
  show ?thesis
    unfolding m name_lookup_def Let_def assms(3) option.case pc
    using ne n1 one by (simp add: hd_conv_nth)
qed

theorem protein_coding_disambiguation_witness:
  "\<not> ENSEMBL_PATTERN_match ascii_db (py_strip (ascii ''ambig''))
   \<and> name_to_ids sample_gene_dict (py_upper ascii_db (py_strip (ascii ''ambig'')))
       = Some [ascii ''ENSG00000000001'', ascii ''ENSG00000000002'']
   \<and> resolve_genes ascii_db sample_gene_dict [ascii ''ambig'', ascii ''DUALPC''] True ! 0 =
       \<lparr>query = ascii ''ambig'', ensembl_ids = [ascii ''ENSG00000000001''],
        canonical_name = Some (ascii ''AMBIG''), is_ambiguous = False,
        feature_types = [ascii ''protein_coding'']\<rparr>
   \<and> resolve_genes ascii_db sample_gene_dict [ascii ''ambig'', ascii ''DUALPC''] False ! 0 =
       \<lparr>query = ascii ''ambig'',
        ensembl_ids = [ascii ''ENSG00000000001'', ascii ''ENSG00000000002''],
        canonical_name = Some (ascii ''AMBIG''), is_ambiguous = True,
        feature_types = [ascii ''protein_coding'', ascii ''lncRNA'']\<rparr>
   \<and> \<not> ENSEMBL_PATTERN_match ascii_db (py_strip (ascii ''DUALPC''))
   \<and> name_to_ids sample_gene_dict (py_upper ascii_db (py_strip (ascii ''DUALPC'')))
       = Some [ascii ''ENSG00000000003'', ascii ''ENSG00000000004'']
   \<and> resolve_genes ascii_db sample_gene_dict [ascii ''ambig'', ascii ''DUALPC''] True ! 1 =
       \<lparr>query = ascii ''DUALPC'',
        ensembl_ids = [ascii ''ENSG00000000003'', ascii ''ENSG00000000004''],
        canonical_name = Some (ascii ''DUALPC''), is_ambiguous = True,
        feature_types = [ascii ''protein_coding'', ascii ''protein_coding'']\<rparr>"
proof -
  let ?qs = "[ascii ''ambig'', ascii ''DUALPC'']"
  have s0: "py_strip (ascii ''ambig'') = ascii ''ambig''"
    and s1: "py_strip (ascii ''DUALPC'') = ascii ''DUALPC''"
    by (simp_all add: strip_eval)
  have p0: "\<not> ENSEMBL_PATTERN_match ascii_db (ascii ''ambig'')"
    and p1: "\<not> ENSEMBL_PATTERN_match ascii_db (ascii ''DUALPC'')"
    by code_simp+
  have u0: "py_upper ascii_db (ascii ''ambig'') = ascii ''AMBIG''"
    and u1: "py_upper ascii_db (ascii ''DUALPC'') = ascii ''DUALPC''"
    by code_simp+
  have d0: "name_to_ids sample_gene_dict (ascii ''AMBIG'')
              = Some [ascii ''ENSG00000000001'', ascii ''ENSG00000000002'']"
    and d1: "name_to_ids sample_gene_dict (ascii ''DUALPC'')
              = Some [ascii ''ENSG00000000003'', ascii ''ENSG00000000004'']"
    by code_simp+
  have f: "id_to_feature_type sample_gene_dict (ascii ''ENSG00000000001'')
             = Some (ascii ''protein_coding'')"
    "id_to_feature_type sample_gene_dict (ascii ''ENSG00000000002'') = Some (ascii ''lncRNA'')"
    "id_to_feature_type sample_gene_dict (ascii ''ENSG00000000003'')
             = Some (ascii ''protein_coding'')"
    "id_to_feature_type sample_gene_dict (ascii ''ENSG00000000004'')
             = Some (ascii ''protein_coding'')"
    "id_to_name sample_gene_dict (ascii ''ENSG00000000001'') = Some (ascii ''AMBIG'')"
    "id_to_name sample_gene_dict (ascii ''ENSG00000000003'') = Some (ascii ''DUALPC'')"
    "ascii ''lncRNA'' \<noteq> ascii ''protein_coding''"
    by code_simp+
  have r0: "resolve_genes ascii_db sample_gene_dict ?qs True ! 0 =
       \<lparr>query = ascii ''ambig'', ensembl_ids = [ascii ''ENSG00000000001''],
        canonical_name = Some (ascii ''AMBIG''), is_ambiguous = False,
        feature_types = [ascii ''protein_coding'']\<rparr>"
    using protein_coding_disambiguation
      [where db = ascii_db and gd = sample_gene_dict and i = 0 and gene_names = ?qs
         and ids = "[ascii ''ENSG00000000001'', ascii ''ENSG00000000002'']"
         and prefer_protein_coding = True]
    by (simp add: s0 p0 u0 d0 f dict_get_def)
  have r1: "resolve_genes ascii_db sample_gene_dict ?qs False ! 0 =
       \<lparr>query = ascii ''ambig'',
        ensembl_ids = [ascii ''ENSG00000000001'', ascii ''ENSG00000000002''],
        canonical_name = Some (ascii ''AMBIG''), is_ambiguous = True,
        feature_types = [ascii ''protein_coding'', ascii ''lncRNA'']\<rparr>"
    using protein_coding_disambiguation
      [where db = ascii_db and gd = sample_gene_dict and i = 0 and gene_names = ?qs
         and ids = "[ascii ''ENSG00000000001'', ascii ''ENSG00000000002'']"
         and prefer_protein_coding = False]
    by (simp add: s0 p0 u0 d0 f dict_get_def)
  have r2: "resolve_genes ascii_db sample_gene_dict ?qs True ! 1 =
       \<lparr>query = ascii ''DUALPC'',
        ensembl_ids = [ascii ''ENSG00000000003'', ascii ''ENSG00000000004''],
        canonical_name = Some (ascii ''DUALPC''), is_ambiguous = True,
        feature_types = [ascii ''protein_coding'', ascii ''protein_coding'']\<rparr>"
    using protein_coding_disambiguation
      [where db = ascii_db and gd = sample_gene_dict and i = 1 and gene_names = ?qs
         and ids = "[ascii ''ENSG00000000003'', ascii ''ENSG00000000004'']"
         and prefer_protein_coding = True]
    by (simp add: s1 p1 u1 d1 f dict_get_def)
  show ?thesis
    using r0 r1 r2 by (simp add: s0 s1 p0 p1 u0 u1 d0 d1)
qed


subsection \<open>The feature type of a known stable identifier\<close>





subsection \<open>An empty list of identifiers is like no entry\<close>

text \<open>
  Claim C10. For a token whose stripped form does not match the pattern, when \<^verbatim>\<open>name_to_ids\<close>
  has no entry for its upper-case form or maps it to the empty list, the result is the same
  in both cases: no identifiers, no canonical name, not ambiguous, no feature types. The
  upper-case form is the one the database gives, for every database.
\<close>

theorem empty_entry_same_as_absent:
  assumes "i < length gene_names"
    and "\<not> ENSEMBL_PATTERN_match db (py_strip (gene_names ! i))"
    and "name_to_ids gd (py_upper db (py_strip (gene_names ! i))) = None
       \<or> name_to_ids gd (py_upper db (py_strip (gene_names ! i))) = Some []"
  shows "resolve_genes db gd gene_names prefer_protein_coding ! i =
           \<lparr>query = py_strip (gene_names ! i), ensembl_ids = [], canonical_name = None,
            is_ambiguous = False, feature_types = []\<rparr>"
  using assms
  by (auto simp add: resolve_genes_nth resolve_one_def name_lookup_def GeneMatch_default_def)

theorem empty_entry_same_as_absent_witness:
  "\<not> ENSEMBL_PATTERN_match ascii_db (py_strip (ascii ''ghost''))
   \<and> name_to_ids sparse_gene_dict (py_upper ascii_db (py_strip (ascii ''ghost''))) = Some []
   \<and> \<not> ENSEMBL_PATTERN_match ascii_db (py_strip (ascii ''NOTREAL''))
   \<and> name_to_ids sparse_gene_dict (py_upper ascii_db (py_strip (ascii ''NOTREAL''))) = None
   \<and> resolve_genes ascii_db sparse_gene_dict [ascii ''ghost'', ascii ''NOTREAL''] True ! 0 =
        \<lparr>query = ascii ''ghost'', ensembl_ids = [], canonical_name = None,
            is_ambiguous = False, feature_types = []\<rparr>
   \<and> resolve_genes ascii_db sparse_gene_dict [ascii ''ghost'', ascii ''NOTREAL''] True ! 1 =
         \<lparr>query = ascii ''NOTREAL'', ensembl_ids = [], canonical_name = None,
            is_ambiguous = False, feature_types = []\<rparr>"
proof -
  let ?qs = "[ascii ''ghost'', ascii ''NOTREAL'']"
  have s0: "py_strip (ascii ''ghost'') = ascii ''ghost''"
    and s1: "py_strip (ascii ''NOTREAL'') = ascii ''NOTREAL''"
    by (simp_all add: strip_eval)
  have p0: "\<not> ENSEMBL_PATTERN_match ascii_db (ascii ''ghost'')"
    and p1: "\<not> ENSEMBL_PATTERN_match ascii_db (ascii ''NOTREAL'')"
    by code_simp+
  have u0: "py_upper ascii_db (ascii ''ghost'') = ascii ''GHOST''"
    and u1: "py_upper ascii_db (ascii ''NOTREAL'') = ascii ''NOTREAL''"
    by code_simp+
  have d0: "name_to_ids sparse_gene_dict (ascii ''GHOST'') = Some []"
    and d1: "name_to_ids sparse_gene_dict (ascii ''NOTREAL'') = None"
    by code_simp+
  have r0: "resolve_genes ascii_db sparse_gene_dict ?qs True ! 0 =
      \<lparr>query = ascii ''ghost'', ensembl_ids = [], canonical_name = None,
       is_ambiguous = False, feature_types = []\<rparr>"
    using empty_entry_same_as_absent
      [where db = ascii_db and gd = sparse_gene_dict and i = 0 and gene_names = ?qs
         and prefer_protein_coding = True]
    by (simp add: s0 p0 u0 d0)
  have r1: "resolve_genes ascii_db sparse_gene_dict ?qs True ! 1 =
      \<lparr>query = ascii ''NOTREAL'', ensembl_ids = [], canonical_name = None,
       is_ambiguous = False, feature_types = []\<rparr>"
    using empty_entry_same_as_absent
      [where db = ascii_db and gd = sparse_gene_dict and i = 1 and gene_names = ?qs
         and prefer_protein_coding = True]
    by (simp add: s1 p1 u1 d1)
  show ?thesis
    using r0 r1 by (simp add: s0 s1 p0 p1 u0 u1 d0 d1)
qed


section \<open>The pattern of a stable identifier\<close>

subsection \<open>The matcher decides the language\<close>











subsection \<open>The pattern and the shape\<close>









subsection \<open>ASCII strings under a database that agrees with Unicode on ASCII\<close>








lemma py_upper_ascii:
  assumes "agrees_on_ascii db" and "list_all (\<lambda>c. c < 128) s"
  shows "py_upper db s = py_upper ascii_db s"
  using assms(2) assms(1)
  by (induction s) (simp_all add: py_upper_def agrees_on_ascii_def)

text \<open>
  Beyond ASCII the upper case is what the database says: where it maps the sharp s (U+00DF)
  to \<^verbatim>\<open>SS\<close>, as Unicode does, the dictionary key of that token is \<^verbatim>\<open>STRASSE\<close>.
\<close>

lemma py_upper_sharp_s:
  assumes "agrees_on_ascii db" and "upper_full db 0xDF = ascii ''SS''"
  shows "py_upper db (ascii ''stra'' @ [0xDF] @ ascii ''e'') = ascii ''STRASSE''"
proof -
  have a: "list_all (\<lambda>c. c < 128) (ascii ''stra'')" "list_all (\<lambda>c. c < 128) (ascii ''e'')"
    by code_simp+
  have u: "py_upper ascii_db (ascii ''stra'') = ascii ''STRA''"
    "py_upper ascii_db (ascii ''e'') = ascii ''E''"
    "ascii ''STRA'' @ ascii ''SS'' @ ascii ''E'' = ascii ''STRASSE''"
    by code_simp+
  have "py_upper db (ascii ''stra'' @ [0xDF] @ ascii ''e'')
      = py_upper db (ascii ''stra'') @ upper_full db 0xDF @ py_upper db (ascii ''e'')"
    by (simp add: py_upper_def)
  then show ?thesis
    by (simp add: py_upper_ascii [OF assms(1)] a u assms(2))
qed


subsection \<open>The pattern accepts the shape of the specification\<close>




section \<open>Properties of \<^verbatim>\<open>build_var_value_filter\<close>\<close>

lemma py_join_quoted:
  "py_join (ascii '', '') (map (\<lambda>eid. 0x27 # eid @ [0x27]) us) = quoted_ids us"
  by (induction us rule: quoted_ids.induct) simp_all

text \<open>
  Claim C2. The filter of the empty collection is the empty string. The filter of any other
  collection is \<^verbatim>\<open>feature_id in [\<close>, the identifiers, \<^verbatim>\<open>]\<close>, where the identifiers are those of
  the input without duplicates, in ascending lexical order, each in single quotes, with a
  comma and one space between two of them and nothing after the last. The third part is the
  example of the specification.
\<close>

theorem build_var_value_filter_format:
  "build_var_value_filter [] = []
   \<and> (ids \<noteq> [] \<longrightarrow>
        (\<exists>us. sorted us \<and> distinct us \<and> set us = set ids
           \<and> build_var_value_filter ids
               = ascii ''feature_id in ['' @ quoted_ids us @ ascii '']''))
   \<and> build_var_value_filter [ascii ''ENSG00000012048'', ascii ''ENSG00000141510'']
       = ascii ''feature_id in ['' @ [0x27] @ ascii ''ENSG00000012048'' @ [0x27] @ ascii '', ''
           @ [0x27] @ ascii ''ENSG00000141510'' @ [0x27] @ ascii '']''"
proof (intro conjI impI)
  show "build_var_value_filter [] = []"
    by (simp add: build_var_value_filter_def)
next
  assume ne: "ids \<noteq> []"
  let ?us = "sorted_list_of_set (set ids)"
  have "?us \<noteq> []" using ne by simp
  then have "build_var_value_filter ids
      = ascii ''feature_id in ['' @ quoted_ids ?us @ ascii '']''"
    by (simp add: build_var_value_filter_def Let_def py_join_quoted
        del: set_empty sorted_list_of_set.sorted_key_list_of_set_eq_Nil_iff)
  moreover have "sorted ?us" "distinct ?us" "set ?us = set ids"
    by simp_all
  ultimately show "\<exists>us. sorted us \<and> distinct us \<and> set us = set ids
           \<and> build_var_value_filter ids
               = ascii ''feature_id in ['' @ quoted_ids us @ ascii '']''"
    by blast
next
  show "build_var_value_filter [ascii ''ENSG00000012048'', ascii ''ENSG00000141510'']
       = ascii ''feature_id in ['' @ [0x27] @ ascii ''ENSG00000012048'' @ [0x27] @ ascii '', ''
           @ [0x27] @ ascii ''ENSG00000141510'' @ [0x27] @ ascii '']''"
    by code_simp
qed

theorem build_var_value_filter_format_witness:
  "[ascii ''ENSG00000141510'', ascii ''ENSG00000012048'', ascii ''ENSG00000141510''] \<noteq> []
   \<and> (\<exists>us. sorted us \<and> distinct us
          \<and> set us
              = set [ascii ''ENSG00000141510'', ascii ''ENSG00000012048'', ascii ''ENSG00000141510'']
          \<and> build_var_value_filter
                [ascii ''ENSG00000141510'', ascii ''ENSG00000012048'', ascii ''ENSG00000141510'']
              = ascii ''feature_id in ['' @ quoted_ids us @ ascii '']'')
   \<and> build_var_value_filter
         [ascii ''ENSG00000141510'', ascii ''ENSG00000012048'', ascii ''ENSG00000141510'']
       = ascii ''feature_id in ['' @ [0x27] @ ascii ''ENSG00000012048'' @ [0x27] @ ascii '', ''
           @ [0x27] @ ascii ''ENSG00000141510'' @ [0x27] @ ascii '']''"
proof -
  have ne: "[ascii ''ENSG00000141510'', ascii ''ENSG00000012048'', ascii ''ENSG00000141510'']
      \<noteq> []"
    by simp
  have ev: "build_var_value_filter
         [ascii ''ENSG00000141510'', ascii ''ENSG00000012048'', ascii ''ENSG00000141510'']
       = ascii ''feature_id in ['' @ [0x27] @ ascii ''ENSG00000012048'' @ [0x27] @ ascii '', ''
           @ [0x27] @ ascii ''ENSG00000141510'' @ [0x27] @ ascii '']''"
    by code_simp
  show ?thesis
    using build_var_value_filter_format
      [of "[ascii ''ENSG00000141510'', ascii ''ENSG00000012048'', ascii ''ENSG00000141510'']"]
      ne ev
    by blast
qed

text \<open>
  Claim C9. The filter depends on the set of identifiers only: two collections with the
  same elements give the same string, in particular a collection and a permutation of it,
  and a collection and itself twice.
\<close>

theorem build_var_value_filter_set_only:
  "(set S = set T \<longrightarrow> build_var_value_filter S = build_var_value_filter T)
   \<and> (mset S = mset T \<longrightarrow> build_var_value_filter S = build_var_value_filter T)
   \<and> build_var_value_filter (S @ S) = build_var_value_filter S"
proof (intro conjI impI)
  assume "set S = set T"
  then show "build_var_value_filter S = build_var_value_filter T"
    by (simp add: build_var_value_filter_def)
next
  assume "mset S = mset T"
  then have "set S = set T" by (rule mset_eq_setD)
  then show "build_var_value_filter S = build_var_value_filter T"
    by (simp add: build_var_value_filter_def)
next
  show "build_var_value_filter (S @ S) = build_var_value_filter S"
    by (simp add: build_var_value_filter_def)
qed

theorem build_var_value_filter_set_only_witness:
  "set [ascii ''ENSG00000141510'', ascii ''ENSG00000012048'']
     = set [ascii ''ENSG00000012048'', ascii ''ENSG00000141510'', ascii ''ENSG00000012048'']
   \<and> build_var_value_filter [ascii ''ENSG00000141510'', ascii ''ENSG00000012048'']
     = build_var_value_filter
         [ascii ''ENSG00000012048'', ascii ''ENSG00000141510'', ascii ''ENSG00000012048'']
   \<and> mset [ascii ''ENSG00000141510'', ascii ''ENSG00000012048'']
     = mset [ascii ''ENSG00000012048'', ascii ''ENSG00000141510'']
   \<and> build_var_value_filter [ascii ''ENSG00000141510'', ascii ''ENSG00000012048'']
     = build_var_value_filter [ascii ''ENSG00000012048'', ascii ''ENSG00000141510'']"
proof -
  have s: "set [ascii ''ENSG00000141510'', ascii ''ENSG00000012048'']
     = set [ascii ''ENSG00000012048'', ascii ''ENSG00000141510'', ascii ''ENSG00000012048'']"
    by auto
  have m: "mset [ascii ''ENSG00000141510'', ascii ''ENSG00000012048'']
     = mset [ascii ''ENSG00000012048'', ascii ''ENSG00000141510'']"
    by (simp add: add.commute)
  show ?thesis
    using build_var_value_filter_set_only
        [of "[ascii ''ENSG00000141510'', ascii ''ENSG00000012048'']"
            "[ascii ''ENSG00000012048'', ascii ''ENSG00000141510'', ascii ''ENSG00000012048'']"]
      build_var_value_filter_set_only
        [of "[ascii ''ENSG00000141510'', ascii ''ENSG00000012048'']"
            "[ascii ''ENSG00000012048'', ascii ''ENSG00000141510'']"]
      s m
    by blast
qed


section \<open>Properties of \<^verbatim>\<open>_get_gene_dict\<close>\<close>

lemma fetch_from_census_no_exception: "\<exists>gd. snd (fetch_from_census db io) = Inr gd"
  by (simp add: fetch_from_census_def Let_def split: sum.split option.split)

lemma fetch_from_census_cache_exists:
  "fetch_from_census db (io\<lparr>cache_exists := b\<rparr>) = fetch_from_census db io"
  by (simp add: fetch_from_census_def Let_def split: sum.split option.split)

text \<open>
  Claim C8, as amended. When the cache file exists and unpickling it raises
  \<^verbatim>\<open>pickle.UnpicklingError\<close> or \<^verbatim>\<open>EOFError\<close>, the function logs a warning and goes on to the
  census as if there were no cache file: it returns what it returns without the file, after
  the two log records of the failed load, and it raises nothing.
\<close>

theorem cache_corrupt_falls_through:
  assumes "makedirs io = None"
    and "cache_exists io"
    and "cache_open io = None"
    and "cache_load io = Inl e"
    and "e = UnpicklingError \<or> e = EOFError"
  shows "get_gene_dict db io =
           (Info_loading_cached # Warning_cache_corrupted e
              # fst (get_gene_dict db (io\<lparr>cache_exists := False\<rparr>)),
            snd (get_gene_dict db (io\<lparr>cache_exists := False\<rparr>)))
       \<and> (\<exists>gd. snd (get_gene_dict db io) = Inr gd)"
proof -
  have c: "cache_handler_catches e"
    using assms(5) by (simp add: cache_handler_catches_def)
  have miss: "get_gene_dict db (io\<lparr>cache_exists := False\<rparr>) = fetch_from_census db io"
    using assms(1) by (simp add: get_gene_dict_def fetch_from_census_cache_exists)
  have hit: "get_gene_dict db io =
      (Info_loading_cached # Warning_cache_corrupted e # fst (fetch_from_census db io),
       snd (fetch_from_census db io))"
    using assms(1-4) c by (simp add: get_gene_dict_def split: prod.split)
  show ?thesis
    unfolding miss hit using fetch_from_census_no_exception [of db io] by simp
qed

theorem cache_corrupt_falls_through_witness:
  "makedirs (corrupt_cache_io EOFError) = None
   \<and> cache_exists (corrupt_cache_io EOFError)
   \<and> cache_open (corrupt_cache_io EOFError) = None
   \<and> cache_load (corrupt_cache_io EOFError) = Inl EOFError
   \<and> fst (get_gene_dict ascii_db (corrupt_cache_io EOFError))
       = [Info_loading_cached, Warning_cache_corrupted EOFError, Info_fetching, Info_saved]
   \<and> (\<exists>gd. snd (get_gene_dict ascii_db (corrupt_cache_io EOFError)) = Inr gd)"
proof -
  have h: "makedirs (corrupt_cache_io EOFError) = None"
    "cache_exists (corrupt_cache_io EOFError)"
    "cache_open (corrupt_cache_io EOFError) = None"
    "cache_load (corrupt_cache_io EOFError) = Inl EOFError"
    by (simp_all add: corrupt_cache_io_def)
  have miss: "fst (get_gene_dict ascii_db (corrupt_cache_io EOFError\<lparr>cache_exists := False\<rparr>))
      = [Info_fetching, Info_saved]"
    by (simp add: get_gene_dict_def fetch_from_census_def corrupt_cache_io_def)
  have e: "EOFError = UnpicklingError \<or> EOFError = EOFError" by simp
  note t = cache_corrupt_falls_through [OF h e, of ascii_db]
  have f: "fst (get_gene_dict ascii_db (corrupt_cache_io EOFError))
       = [Info_loading_cached, Warning_cache_corrupted EOFError, Info_fetching, Info_saved]"
    using t miss by simp
  show ?thesis
    using h f t by blast
qed

text \<open>
  Claim C8 as it was stated fails for the other exceptions of unpickling: the handler
  names two classes, and an \<^verbatim>\<open>AttributeError\<close> raised by \<^verbatim>\<open>pickle.load\<close> leaves the function.
\<close>

theorem cache_other_exception_counterexample:
  "makedirs (corrupt_cache_io AttributeError) = None
   \<and> cache_exists (corrupt_cache_io AttributeError)
   \<and> cache_open (corrupt_cache_io AttributeError) = None
   \<and> cache_load (corrupt_cache_io AttributeError) = Inl AttributeError
   \<and> get_gene_dict ascii_db (corrupt_cache_io AttributeError)
       = ([Info_loading_cached], Inl AttributeError)"
  by (simp add: get_gene_dict_def corrupt_cache_io_def cache_handler_catches_def)

end
